theory Spec2Isabelle
  imports Complex_Main
begin

section \<open>Python values used by the checker\<close>

text \<open>
  The exceptions the script can meet. Every one of them is an instance of Python's
  \<^verbatim>\<open>Exception\<close>; a value carries its class and the text \<^verbatim>\<open>str(e)\<close> gives.
  Asynchronous signals (\<^verbatim>\<open>KeyboardInterrupt\<close>) are outside this sequential model.
\<close>

datatype exc_class =
    FileNotFoundError
  | EmptyDataError
  | ParserError
  | AttributeError
  | ValueError
  | UnicodeDecodeError
  | PermissionError
  | NotADirectoryError
  | OSError

datatype py_exception = Exc (exc_class: exc_class) (str: string)

text \<open>
  A word between apostrophes, as Python's messages show a type, an attribute, a codec
  or, by \<^verbatim>\<open>repr\<close>, a file name that has no apostrophe, backslash or control
  character in it. It is applied to such words only.
\<close>

definition quoted :: "string \<Rightarrow> string" where
  "quoted s = CHR 0x27 # s @ [CHR 0x27]"

text \<open>Decimal rendering of a count inside an f-string.\<close>

function str_nat :: "nat \<Rightarrow> string" where
  "str_nat n =
     (if n < 10 then [''0123456789'' ! n]
      else str_nat (n div 10) @ [''0123456789'' ! (n mod 10)])"
  by pat_completeness auto
termination
  by (relation "measure id") auto

declare str_nat.simps [simp del]

text \<open>
  What \<^verbatim>\<open>AttributeError\<close> says when a method is looked up on \<^verbatim>\<open>None\<close>.
\<close>

definition none_has_no :: "string \<Rightarrow> py_exception" where
  "none_has_no attr =
     Exc AttributeError (quoted ''NoneType'' @ '' object has no attribute '' @ quoted attr)"

section \<open>The table\<close>

text \<open>
  A pandas DataFrame: columns in order, each with a name, a dtype and one cell per row.
  \<open>NaN\<close> is the missing marker. A frame is well formed when every column has
  \<open>nrows\<close> cells.
\<close>

datatype cell = NaN | IntVal int | FloatVal rat | BoolVal bool | StrVal string

datatype dtype = Int64 | Float64 | Bool | Object

record column =
  name :: string
  dtype :: dtype
  cells :: "cell list"

record DataFrame =
  nrows :: nat
  columns :: "column list"

definition wf_DataFrame :: "DataFrame \<Rightarrow> bool" where
  "wf_DataFrame df = list_all (\<lambda>c. length (cells c) = nrows df) (columns df)"

type_synonym series = "(string \<times> nat) list"

subsection \<open>The pandas operations the checks call\<close>

fun is_null :: "cell \<Rightarrow> bool" where
  "is_null NaN = True"
| "is_null _ = False"

text \<open>\<^verbatim>\<open>df.isnull()\<close>: the frame of booleans, column by column.\<close>

definition isnull :: "DataFrame \<Rightarrow> (string \<times> bool list) list" where
  "isnull df = map (\<lambda>c. (name c, map is_null (cells c))) (columns df)"

text \<open>\<^verbatim>\<open>.sum()\<close> on a boolean frame: per column, the number of \<^verbatim>\<open>True\<close>.\<close>

definition sum_frame :: "(string \<times> bool list) list \<Rightarrow> series" where
  "sum_frame bf = map (\<lambda>(n, bs). (n, length (filter id bs))) bf"

text \<open>\<^verbatim>\<open>.sum()\<close> on a series of counts.\<close>

definition sum_series :: "series \<Rightarrow> nat" where
  "sum_series s = sum_list (map snd s)"

definition row :: "DataFrame \<Rightarrow> nat \<Rightarrow> cell list" where
  "row df i = map (\<lambda>c. cells c ! i) (columns df)"

definition rows :: "DataFrame \<Rightarrow> cell list list" where
  "rows df = map (row df) [0..<nrows df]"

text \<open>
  \<^verbatim>\<open>df.duplicated()\<close> with its defaults (all columns, keep the first): walking
  the rows in order, a row is marked when an equal row has been seen.
\<close>

fun duplicated_from :: "cell list list \<Rightarrow> cell list list \<Rightarrow> bool list" where
  "duplicated_from seen [] = []"
| "duplicated_from seen (r # rs) = (r \<in> set seen) # duplicated_from (r # seen) rs"

definition duplicated :: "DataFrame \<Rightarrow> bool list" where
  "duplicated df = duplicated_from [] (rows df)"

definition any_true :: "bool list \<Rightarrow> bool" where
  "any_true bs = list_ex id bs"

definition sum_bools :: "bool list \<Rightarrow> nat" where
  "sum_bools bs = length (filter id bs)"

text \<open>\<^verbatim>\<open>df.select_dtypes(include=[np.number])\<close>: the integer and float columns.\<close>

fun is_number :: "dtype \<Rightarrow> bool" where
  "is_number Int64 = True"
| "is_number Float64 = True"
| "is_number _ = False"

definition select_dtypes_number :: "DataFrame \<Rightarrow> DataFrame" where
  "select_dtypes_number df = df\<lparr>columns := filter (\<lambda>c. is_number (dtype c)) (columns df)\<rparr>"

section \<open>The scaler\<close>








section \<open>The world around the script\<close>

text \<open>
  What a run leaves behind, in order: the calls of \<^verbatim>\<open>pd.read_csv\<close> and the
  objects given to \<^verbatim>\<open>print\<close> (a string, or the series of per-column counts).
\<close>

datatype printed = Text string | SeriesRepr series

datatype event = ReadCsv string | Print printed

fun is_ReadCsv :: "event \<Rightarrow> bool" where
  "is_ReadCsv (ReadCsv _) = True"
| "is_ReadCsv (Print _) = False"

record 'rs world =
  trace :: "event list"
  np_random :: 'rs

definition emit :: "event list \<Rightarrow> 'rs world \<Rightarrow> 'rs world" where
  "emit evs w = w\<lparr>trace := trace w @ evs\<rparr>"

text \<open>
  The file system and the two libraries are parameters of the model. \<open>files\<close> maps a
  path to the bytes of the file there. \<open>open_error\<close> is the exception the operating
  system makes \<^verbatim>\<open>open\<close> raise for a path with no file, with its text:
  \<^verbatim>\<open>FileNotFoundError\<close> for a name missing from its directory,
  \<^verbatim>\<open>NotADirectoryError\<close> for a path that goes through a regular file,
  \<^verbatim>\<open>OSError\<close> for a name that is too long. \<open>parse_csv\<close> is the pandas parser
  on a non-empty file. The scikit-learn estimators are taken as they are called:
  \<open>fit_transform\<close> gets the scaler's earlier state and the frame, and returns the
  fitted scaler with the scaled matrix or an exception; \<open>forest_fit\<close> gets the
  contamination, a random generator and the matrix, and returns the generator as it
  leaves it with the fitted model or an exception; \<open>forest_predict\<close> returns the
  labels, \<open>1\<close> or \<open>-1\<close>.
\<close>

record ('sc, 'rs, 'm, 'mdl) env =
  files :: "string \<rightharpoonup> string"
  open_error :: "string \<Rightarrow> py_exception"
  parse_csv :: "string \<Rightarrow> py_exception + DataFrame"
  StandardScaler :: 'sc
  fit_transform :: "'sc \<Rightarrow> DataFrame \<Rightarrow> 'sc \<times> (py_exception + 'm)"
  RandomState :: "nat \<Rightarrow> 'rs"
  forest_fit :: "rat \<Rightarrow> 'rs \<Rightarrow> 'm \<Rightarrow> 'rs \<times> (py_exception + 'mdl)"
  forest_predict :: "'mdl \<Rightarrow> 'm \<Rightarrow> py_exception + int list"

text \<open>
  What \<^verbatim>\<open>open\<close> raises for a path with no file. A NUL in the name is refused by
  Python itself, with \<^verbatim>\<open>ValueError\<close>; any other path is the operating system's
  to refuse.
\<close>

definition open_failure :: "('sc, 'rs, 'm, 'mdl) env \<Rightarrow> string \<Rightarrow> py_exception" where
  "open_failure env path =
     (if CHR 0x00 \<in> set path then Exc ValueError ''embedded null byte''
      else open_error env path)"

text \<open>
  \<^verbatim>\<open>pd.read_csv(path)\<close>: with no file at the path, the exception of
  \<^verbatim>\<open>open\<close>; a file of no bytes is \<^verbatim>\<open>EmptyDataError\<close>; anything else is the
  parser's answer.
\<close>

definition read_csv :: "('sc, 'rs, 'm, 'mdl) env \<Rightarrow> string \<Rightarrow> py_exception + DataFrame" where
  "read_csv env path =
     (case files env path of
        None \<Rightarrow> Inl (open_failure env path)
      | Some content \<Rightarrow>
          if content = [] then Inl (Exc EmptyDataError ''No columns to parse from file'')
          else parse_csv env content)"

text \<open>
  \<^verbatim>\<open>IsolationForest(contamination, random_state).fit(X)\<close>: an integer seed makes
  a generator of its own, \<^verbatim>\<open>None\<close> draws from numpy's global generator and
  advances it.
\<close>

definition IsolationForest_fit ::
  "('sc, 'rs, 'm, 'mdl) env \<Rightarrow> rat \<Rightarrow> nat option \<Rightarrow> 'm \<Rightarrow> 'rs world
     \<Rightarrow> (py_exception + 'mdl) \<times> 'rs world" where
  "IsolationForest_fit env contamination random_state X w =
     (case random_state of
        Some seed \<Rightarrow> (snd (forest_fit env contamination (RandomState env seed) X), w)
      | None \<Rightarrow>
          (case forest_fit env contamination (np_random w) X of
             (g, r) \<Rightarrow> (r, w\<lparr>np_random := g\<rparr>)))"

section \<open>DataIntegrityChecker\<close>

record 'sc checker =
  file_path :: string
  data :: "DataFrame option"
  scaler :: 'sc

definition init :: "('sc, 'rs, 'm, 'mdl) env \<Rightarrow> string \<Rightarrow> 'sc checker" where
  "init env path = \<lparr>file_path = path, data = None, scaler = StandardScaler env\<rparr>"

text \<open>
  A method returns \<open>Inr ()\<close> or raises (\<open>Inl e\<close>), and leaves the checker and the
  world as it changed them.
\<close>

type_synonym ('sc, 'rs) outcome = "(py_exception + unit) \<times> 'sc checker \<times> 'rs world"

definition load_data ::
  "('sc, 'rs, 'm, 'mdl) env \<Rightarrow> 'sc checker \<Rightarrow> 'rs world \<Rightarrow> ('sc, 'rs) outcome" where
  "load_data env c w =
     (let w1 = emit [ReadCsv (file_path c)] w in
      case read_csv env (file_path c) of
        Inr df \<Rightarrow>
          (Inr (), c\<lparr>data := Some df\<rparr>, emit [Print (Text ''Data loaded successfully.'')] w1)
      | Inl e \<Rightarrow>
          if exc_class e = FileNotFoundError then
            (Inl e, c, emit [Print (Text (''Error: '' @ str e))] w1)
          else if exc_class e = EmptyDataError then
            (Inl e, c, emit [Print (Text ''Error: No data found at the specified path.'')] w1)
          else if exc_class e = ParserError then
            (Inl e, c, emit [Print (Text (''Error parsing data:  '' @ str e))] w1)
          else (Inl e, c, w1))"

text \<open>The statements inside the \<^verbatim>\<open>try\<close> of \<^verbatim>\<open>check_missing_values\<close>.\<close>

definition missing_values_body :: "'sc checker \<Rightarrow> py_exception + event list" where
  "missing_values_body c =
     (case data c of
        None \<Rightarrow> Inl (none_has_no ''isnull'')
      | Some df \<Rightarrow>
          if sum_series (sum_frame (isnull df)) > 0 then
            Inr [Print (Text ''Warning: Missing values detected.''),
                 Print (SeriesRepr (sum_frame (isnull df)))]
          else Inr [Print (Text ''No missing values detected.'')])"

definition check_missing_values :: "'sc checker \<Rightarrow> 'rs world \<Rightarrow> ('sc, 'rs) outcome" where
  "check_missing_values c w =
     (case missing_values_body c of
        Inr evs \<Rightarrow> (Inr (), c, emit evs w)
      | Inl e \<Rightarrow> (Inr (), c, emit [Print (Text (''Error checking missing values: '' @ str e))] w))"

text \<open>The statements inside the \<^verbatim>\<open>try\<close> of \<^verbatim>\<open>check_duplicates\<close>.\<close>

definition duplicates_body :: "'sc checker \<Rightarrow> py_exception + event list" where
  "duplicates_body c =
     (case data c of
        None \<Rightarrow> Inl (none_has_no ''duplicated'')
      | Some df \<Rightarrow>
          if any_true (duplicated df) then
            Inr [Print (Text ''Warning: Duplicate records detected.''),
                 Print (Text (''Number of duplicates: '' @ str_nat (sum_bools (duplicated df))))]
          else Inr [Print (Text ''No duplicate records detected.'')])"

definition check_duplicates :: "'sc checker \<Rightarrow> 'rs world \<Rightarrow> ('sc, 'rs) outcome" where
  "check_duplicates c w =
     (case duplicates_body c of
        Inr evs \<Rightarrow> (Inr (), c, emit evs w)
      | Inl e \<Rightarrow> (Inr (), c, emit [Print (Text (''Error checking duplicates: '' @ str e))] w))"

text \<open>
  The statements of \<^verbatim>\<open>check_outliers\<close> up to \<^verbatim>\<open>model.predict\<close>: the labels
  or the exception, the scaler as \<^verbatim>\<open>fit_transform\<close> left it, and the world. The
  contamination \<^verbatim>\<open>0.01\<close> is written as the rational \<open>1 / 100\<close>; the model only
  hands it on.
\<close>

definition predict_outliers ::
  "('sc, 'rs, 'm, 'mdl) env \<Rightarrow> 'sc checker \<Rightarrow> 'rs world
     \<Rightarrow> (py_exception + int list) \<times> 'sc \<times> 'rs world" where
  "predict_outliers env c w =
     (case data c of
        None \<Rightarrow> (Inl (none_has_no ''select_dtypes''), scaler c, w)
      | Some df \<Rightarrow>
          (case fit_transform env (scaler c) (select_dtypes_number df) of
             (sc, Inl e) \<Rightarrow> (Inl e, sc, w)
           | (sc, Inr scaled_data) \<Rightarrow>
               (case IsolationForest_fit env (1 / 100) (Some 42) scaled_data w of
                  (Inl e, w1) \<Rightarrow> (Inl e, sc, w1)
                | (Inr model, w1) \<Rightarrow> (forest_predict env model scaled_data, sc, w1))))"

definition count_outliers :: "int list \<Rightarrow> nat" where
  "count_outliers outliers = length (filter (\<lambda>x. x = - 1) outliers)"

definition check_outliers ::
  "('sc, 'rs, 'm, 'mdl) env \<Rightarrow> 'sc checker \<Rightarrow> 'rs world \<Rightarrow> ('sc, 'rs) outcome" where
  "check_outliers env c w =
     (case predict_outliers env c w of
        (Inr outliers, sc, w1) \<Rightarrow>
          (Inr (), c\<lparr>scaler := sc\<rparr>,
           emit [Print (Text (if count_outliers outliers > 0
                              then ''Outliers detected: '' @ str_nat (count_outliers outliers)
                              else ''No outliers detected.''))] w1)
      | (Inl e, sc, w1) \<Rightarrow>
          (Inr (), c\<lparr>scaler := sc\<rparr>,
           emit [Print (Text (''Error during outlier detection: '' @ str e))] w1))"

text \<open>One call after another: the first that raises ends the sequence.\<close>

definition and_then ::
  "('sc, 'rs) outcome \<Rightarrow> ('sc checker \<Rightarrow> 'rs world \<Rightarrow> ('sc, 'rs) outcome) \<Rightarrow> ('sc, 'rs) outcome" where
  "and_then r f = (case r of (Inl e, c, w) \<Rightarrow> (Inl e, c, w) | (Inr u, c, w) \<Rightarrow> f c w)"

definition run_checks ::
  "('sc, 'rs, 'm, 'mdl) env \<Rightarrow> 'sc checker \<Rightarrow> 'rs world \<Rightarrow> ('sc, 'rs) outcome" where
  "run_checks env c w =
     and_then (and_then (and_then (load_data env c w) check_missing_values) check_duplicates)
       (check_outliers env)"

text \<open>The script's entry point, with the path it has.\<close>

definition main :: "('sc, 'rs, 'm, 'mdl) env \<Rightarrow> 'rs world \<Rightarrow> 'rs world" where
  "main env w =
     (case run_checks env (init env ''path_to_your_dataset.csv'') w of
        (Inr u, c, w1) \<Rightarrow> w1
      | (Inl e, c, w1) \<Rightarrow>
          emit [Print (Text (''An error occurred while running data integrity checks: '' @ str e))] w1)"

subsection \<open>Reading an outcome\<close>

definition result_of :: "('sc, 'rs) outcome \<Rightarrow> py_exception + unit" where
  "result_of r = fst r"

definition checker_of :: "('sc, 'rs) outcome \<Rightarrow> 'sc checker" where
  "checker_of r = fst (snd r)"

definition world_of :: "('sc, 'rs) outcome \<Rightarrow> 'rs world" where
  "world_of r = snd (snd r)"

text \<open>What a call added to the trace of the world \<open>w\<close> it started from.\<close>

definition new_events :: "'rs world \<Rightarrow> 'rs world \<Rightarrow> event list" where
  "new_events w w' = drop (length (trace w)) (trace w')"

text \<open>
  \<^verbatim>\<open>StandardScaler.fit_transform\<close> fits anew: what it returns does not depend on
  an earlier fit.
\<close>

definition refits :: "('sc, 'rs, 'm, 'mdl) env \<Rightarrow> bool" where
  "refits env = (\<forall>s s' X. fit_transform env s X = fit_transform env s' X)"

subsection \<open>What each call prints\<close>

text \<open>
  The events a call adds to the trace, read off its \<^verbatim>\<open>try\<close> body and its
  \<^verbatim>\<open>except\<close> clause.
\<close>

definition missing_values_events :: "'sc checker \<Rightarrow> event list" where
  "missing_values_events c =
     (case missing_values_body c of
        Inr evs \<Rightarrow> evs
      | Inl e \<Rightarrow> [Print (Text (''Error checking missing values: '' @ str e))])"

definition duplicates_events :: "'sc checker \<Rightarrow> event list" where
  "duplicates_events c =
     (case duplicates_body c of
        Inr evs \<Rightarrow> evs
      | Inl e \<Rightarrow> [Print (Text (''Error checking duplicates: '' @ str e))])"

definition outliers_events :: "('sc, 'rs, 'm, 'mdl) env \<Rightarrow> 'sc checker \<Rightarrow> 'rs world \<Rightarrow> event list" where
  "outliers_events env c w =
     [Print (Text (case fst (predict_outliers env c w) of
                     Inl e \<Rightarrow> ''Error during outlier detection: '' @ str e
                   | Inr outliers \<Rightarrow>
                       if count_outliers outliers > 0
                       then ''Outliers detected: '' @ str_nat (count_outliers outliers)
                       else ''No outliers detected.''))]"

definition load_events :: "('sc, 'rs, 'm, 'mdl) env \<Rightarrow> 'sc checker \<Rightarrow> event list" where
  "load_events env c =
     (case read_csv env (file_path c) of
        Inr df \<Rightarrow> [Print (Text ''Data loaded successfully.'')]
      | Inl e \<Rightarrow>
          if exc_class e = FileNotFoundError then [Print (Text (''Error: '' @ str e))]
          else if exc_class e = EmptyDataError then
            [Print (Text ''Error: No data found at the specified path.'')]
          else if exc_class e = ParserError then
            [Print (Text (''Error parsing data:  '' @ str e))]
          else [])"

section \<open>A small run\<close>

text \<open>
  A table of five rows and two columns: row 3 repeats row 1, and one cell of column
  \<open>city\<close> is missing.
\<close>

definition demo_frame :: DataFrame where
  "demo_frame =
     \<lparr>nrows = 5,
      columns =
        [\<lparr>name = ''id'', dtype = Int64,
          cells = [IntVal 1, IntVal 2, IntVal 3, IntVal 2, IntVal 5]\<rparr>,
         \<lparr>name = ''city'', dtype = Object,
          cells = [StrVal ''Oslo'', StrVal ''Rome'', NaN, StrVal ''Rome'', StrVal ''Kyiv'']\<rparr>]\<rparr>"

text \<open>The same table without its numeric column.\<close>

definition text_frame :: DataFrame where
  "text_frame =
     \<lparr>nrows = 5,
      columns =
        [\<lparr>name = ''city'', dtype = Object,
          cells = [StrVal ''Oslo'', StrVal ''Rome'', NaN, StrVal ''Rome'', StrVal ''Kyiv'']\<rparr>]\<rparr>"

text \<open>The two tables as CSV text, a header line and five lines of data.\<close>

definition csv_lines :: "string list \<Rightarrow> string" where
  "csv_lines ls = concat (map (\<lambda>l. l @ [CHR 0x0A]) ls)"

definition demo_csv :: string where
  "demo_csv = csv_lines [''id,city'', ''1,Oslo'', ''2,Rome'', ''3,'', ''2,Rome'', ''5,Kyiv'']"

definition text_csv :: string where
  "text_csv = csv_lines [''city'', ''Oslo'', ''Rome'', [CHR 0x22, CHR 0x22], ''Rome'', ''Kyiv'']"

text \<open>
  The bytes of \<^verbatim>\<open>caf\<close>, \<^verbatim>\<open>0xE9\<close> and a newline: Latin-1, not UTF-8. Reading
  them, pandas raises \<^verbatim>\<open>UnicodeDecodeError\<close> with this text.
\<close>

definition latin1_bytes :: string where
  "latin1_bytes = ''caf'' @ [CHR 0xE9, CHR 0x0A]"

definition not_utf8 :: py_exception where
  "not_utf8 =
     Exc UnicodeDecodeError
       (quoted ''utf-8'' @
        '' codec can't decode byte 0xe9 in position 3: invalid continuation byte'')"

text \<open>
  A name with a NUL in it, and the stand-in for the operating system: it has no
  directory but the current one, whose file \<^verbatim>\<open>table.csv\<close> is a regular file, and
  it is asked about plain names only.
\<close>

definition nul_path :: string where
  "nul_path = ''no'' @ [CHR 0x00] @ ''.csv''"

definition demo_open_error :: "string \<Rightarrow> py_exception" where
  "demo_open_error path =
     (if path = ''table.csv/part'' then
        Exc NotADirectoryError (''[Errno 20] Not a directory: '' @ quoted ''table.csv/part'')
      else Exc FileNotFoundError (''[Errno 2] No such file or directory: '' @ quoted path))"

text \<open>
  A stand-in for the libraries: a parser that knows two files and rejects bytes that are
  not UTF-8, a scaler that refuses a frame without columns and otherwise remembers how
  many rows it was fitted on, and a forest that labels every row an inlier.
\<close>

definition demo_parse :: "string \<Rightarrow> py_exception + DataFrame" where
  "demo_parse content =
     (if content = demo_csv then Inr demo_frame
      else if content = text_csv then Inr text_frame
      else if content = latin1_bytes then Inl not_utf8
      else Inl (Exc ParserError ''Error tokenizing data''))"

definition demo_fit_transform ::
  "nat option \<Rightarrow> DataFrame \<Rightarrow> nat option \<times> (py_exception + nat)" where
  "demo_fit_transform s df =
     (if columns df = [] then
        (None, Inl (Exc ValueError ''at least one array or dtype is required''))
      else (Some (nrows df), Inr (nrows df)))"

definition demo_forest_fit :: "rat \<Rightarrow> nat \<Rightarrow> nat \<Rightarrow> nat \<times> (py_exception + nat)" where
  "demo_forest_fit contamination g X = (Suc g, Inr g)"

definition demo_predict :: "nat \<Rightarrow> nat \<Rightarrow> py_exception + int list" where
  "demo_predict model X = Inr (replicate X 1)"

definition demo_env :: "(nat option, nat, nat, nat) env" where
  "demo_env =
     \<lparr>files = [''table.csv'' \<mapsto> demo_csv, ''text.csv'' \<mapsto> text_csv,
               ''latin1.csv'' \<mapsto> latin1_bytes, ''empty.csv'' \<mapsto> []],
      open_error = demo_open_error,
      parse_csv = demo_parse,
      StandardScaler = None,
      fit_transform = demo_fit_transform,
      RandomState = id,
      forest_fit = demo_forest_fit,
      forest_predict = demo_predict\<rparr>"

definition demo_world :: "nat world" where
  "demo_world = \<lparr>trace = [], np_random = 7\<rparr>"






section \<open>Facts about the pandas operations and the trace\<close>

subsection \<open>Counting missing cells\<close>

lemma count_true_is_null: "length (filter is_null xs) = count_list xs NaN"
proof (induction xs)
  case Nil
  show ?case by simp
next
  case (Cons x xs)
  then show ?case by (cases x) simp_all
qed

lemma sum_frame_isnull:
  "sum_frame (isnull df) = map (\<lambda>c. (name c, count_list (cells c) NaN)) (columns df)"
  by (simp add: sum_frame_def isnull_def count_true_is_null)

subsection \<open>Marking repeated rows\<close>

lemma duplicated_from_nth:
  "duplicated_from seen rs = map (\<lambda>i. rs ! i \<in> set seen \<union> set (take i rs)) [0..<length rs]"
proof (induction rs arbitrary: seen)
  case Nil
  show ?case by simp
next
  case (Cons r rs)
  have "map (\<lambda>i. (r # rs) ! i \<in> set seen \<union> set (take i (r # rs))) [0..<length (r # rs)] =
        (r \<in> set seen) # map (\<lambda>i. rs ! i \<in> set (r # seen) \<union> set (take i rs)) [0..<length rs]"
    by (auto simp add: upt_conv_Cons map_Suc_upt [symmetric] simp del: upt_Suc)
  then show ?case using Cons by auto
qed

lemma count_true_upt: "length (filter P [0..<n]) = card {i. i < n \<and> P i}"
proof -
  have "distinct (filter P [0..<n])"
    by simp
  then have "card (set (filter P [0..<n])) = length (filter P [0..<n])"
    by (rule distinct_card)
  moreover have "set (filter P [0..<n]) = {i. i < n \<and> P i}"
    by auto
  ultimately show ?thesis
    by simp
qed

lemma in_take_iff: "i \<le> length xs \<Longrightarrow> x \<in> set (take i xs) \<longleftrightarrow> (\<exists>j<i. xs ! j = x)"
  by (auto simp: in_set_conv_nth)

lemma row_eq_iff: "row df j = row df i \<longleftrightarrow> (\<forall>c \<in> set (columns df). cells c ! j = cells c ! i)"
  by (simp add: row_def)

lemma duplicated_nth:
  "duplicated df =
     map (\<lambda>i. \<exists>j<i. \<forall>c \<in> set (columns df). cells c ! j = cells c ! i) [0..<nrows df]"
  by (auto simp: duplicated_def duplicated_from_nth rows_def in_take_iff row_eq_iff)

lemma sum_bools_duplicated:
  "sum_bools (duplicated df) =
     card {i. i < nrows df \<and> (\<exists>j<i. \<forall>c \<in> set (columns df). cells c ! j = cells c ! i)}"
  by (simp add: sum_bools_def duplicated_nth count_true_upt)

lemma any_true_sum_bools: "any_true bs \<longleftrightarrow> sum_bools bs > 0"
  by (induction bs) (auto simp: any_true_def sum_bools_def)
lemma any_true_duplicated:
  "any_true (duplicated df) \<longleftrightarrow> sum_bools (duplicated df) \<noteq> 0"
  by (simp add: any_true_sum_bools)

subsection \<open>The trace\<close>

lemma emit_emit: "emit evs (emit evs' w) = emit (evs' @ evs) w"
  by (simp add: emit_def)

lemma trace_emit: "trace (emit evs w) = trace w @ evs"
  by (simp add: emit_def)

lemma np_random_emit: "np_random (emit evs w) = np_random w"
  by (simp add: emit_def)

lemma new_events_emit: "new_events w (emit evs w) = evs"
  by (simp add: new_events_def emit_def)

subsection \<open>Each call as one step on the trace\<close>

lemma predict_outliers_world: "snd (snd (predict_outliers env c w)) = w"
  by (simp add: predict_outliers_def IsolationForest_fit_def
      split: option.splits prod.splits sum.splits)

lemma check_missing_values_eq:
  "check_missing_values c w = (Inr (), c, emit (missing_values_events c) w)"
  by (simp add: check_missing_values_def missing_values_events_def split: sum.splits)

lemma check_duplicates_eq:
  "check_duplicates c w = (Inr (), c, emit (duplicates_events c) w)"
  by (simp add: check_duplicates_def duplicates_events_def split: sum.splits)

lemma check_outliers_eq:
  "check_outliers env c w =
     (Inr (), c\<lparr>scaler := fst (snd (predict_outliers env c w))\<rparr>, emit (outliers_events env c w) w)"
proof -
  obtain r sc w1 where p: "predict_outliers env c w = (r, sc, w1)"
    by (cases "predict_outliers env c w")
  with predict_outliers_world [of env c w] have "w1 = w"
    by simp
  with p show ?thesis
    by (cases r) (simp_all add: check_outliers_def outliers_events_def)
qed

lemma missing_values_events_prints: "filter is_ReadCsv (missing_values_events c) = []"
  by (simp add: missing_values_events_def missing_values_body_def split: option.splits)

lemma duplicates_events_prints: "filter is_ReadCsv (duplicates_events c) = []"
  by (simp add: duplicates_events_def duplicates_body_def split: option.splits)

lemma outliers_events_prints: "filter is_ReadCsv (outliers_events env c w) = []"
  by (simp add: outliers_events_def)

lemma load_events_prints: "filter is_ReadCsv (load_events env c) = []"
  by (simp add: load_events_def split: sum.splits)

lemma load_data_eq:
  "load_data env c w =
     (case read_csv env (file_path c) of
        Inr df \<Rightarrow> (Inr (), c\<lparr>data := Some df\<rparr>, emit (ReadCsv (file_path c) # load_events env c) w)
      | Inl e \<Rightarrow> (Inl e, c, emit (ReadCsv (file_path c) # load_events env c) w))"
  by (simp add: load_data_def load_events_def emit_emit split: sum.splits)

lemma load_data_stores_frame:
  "read_csv env (file_path c) = Inr df \<Longrightarrow> data (checker_of (load_data env c w)) = Some df"
  by (simp add: load_data_eq checker_of_def)

lemma run_checks_loaded:
  assumes "read_csv env (file_path c) = Inr df"
  shows "run_checks env c w =
     (Inr (),
      c\<lparr>data := Some df,
        scaler := fst (snd (predict_outliers env (c\<lparr>data := Some df\<rparr>)
          (emit (ReadCsv (file_path c) # load_events env c
                 @ missing_values_events (c\<lparr>data := Some df\<rparr>)
                 @ duplicates_events (c\<lparr>data := Some df\<rparr>)) w)))\<rparr>,
      emit (ReadCsv (file_path c) # load_events env c
            @ missing_values_events (c\<lparr>data := Some df\<rparr>)
            @ duplicates_events (c\<lparr>data := Some df\<rparr>)
            @ outliers_events env (c\<lparr>data := Some df\<rparr>)
                (emit (ReadCsv (file_path c) # load_events env c
                       @ missing_values_events (c\<lparr>data := Some df\<rparr>)
                       @ duplicates_events (c\<lparr>data := Some df\<rparr>)) w)) w)"
  using assms
  by (simp add: run_checks_def and_then_def load_data_eq check_missing_values_eq
      check_duplicates_eq check_outliers_eq emit_emit)

lemma run_checks_failed:
  assumes "read_csv env (file_path c) = Inl e"
  shows "run_checks env c w = (Inl e, c, emit (ReadCsv (file_path c) # load_events env c) w)"
  using assms by (simp add: run_checks_def and_then_def load_data_eq)

subsection \<open>The outlier pipeline\<close>

lemma predict_outliers_same_fit:
  assumes "data c = Some df" and "data c' = Some df"
    and "fit_transform env (scaler c) = fit_transform env (scaler c')"
  shows "fst (predict_outliers env c w) = fst (predict_outliers env c' w')
   \<and> fst (snd (predict_outliers env c w)) = fst (snd (predict_outliers env c' w'))"
  using assms
  by (simp add: predict_outliers_def IsolationForest_fit_def split: prod.splits sum.splits)




subsection \<open>The scaled columns\<close>












subsection \<open>The files of the small run\<close>

lemmas demo_files =
  demo_env_def demo_parse_def demo_csv_def text_csv_def csv_lines_def latin1_bytes_def

section \<open>Loading\<close>

text \<open>
  C1, as the code has it. When no file exists at the checker's path, \<open>load_data\<close>
  calls the reader once and the exception \<^verbatim>\<open>open\<close> raised reaches the caller, with
  the checker unchanged; \<open>run_checks\<close> ends there with the same outcome, so nothing of
  the three checks is in its trace. When the exception is a \<^verbatim>\<open>FileNotFoundError\<close>,
  the \<^verbatim>\<open>Error:\<close> line with its text is printed first. When it is of a class
  \<open>load_data\<close> has no \<^verbatim>\<open>except\<close> clause for, nothing is printed: so for a name
  with a NUL in it, which raises \<^verbatim>\<open>ValueError\<close>.
\<close>

theorem missing_file_propagates_open_failure:
  assumes "files env (file_path c) = None"
  shows "run_checks env c w = load_data env c w
    \<and> result_of (load_data env c w) = Inl (open_failure env (file_path c))
    \<and> checker_of (load_data env c w) = c
    \<and> (exc_class (open_failure env (file_path c)) = FileNotFoundError \<longrightarrow>
         new_events w (world_of (load_data env c w)) =
           [ReadCsv (file_path c),
            Print (Text (''Error: '' @ str (open_failure env (file_path c))))])
    \<and> (exc_class (open_failure env (file_path c)) \<noteq> FileNotFoundError
         \<and> exc_class (open_failure env (file_path c)) \<noteq> EmptyDataError
         \<and> exc_class (open_failure env (file_path c)) \<noteq> ParserError \<longrightarrow>
         new_events w (world_of (load_data env c w)) = [ReadCsv (file_path c)])
    \<and> (CHR 0x00 \<in> set (file_path c) \<longrightarrow>
         result_of (load_data env c w) = Inl (Exc ValueError ''embedded null byte'')
         \<and> new_events w (world_of (load_data env c w)) = [ReadCsv (file_path c)])"
proof -
  from assms have raised: "read_csv env (file_path c) = Inl (open_failure env (file_path c))"
    by (simp add: read_csv_def)
  have nul: "CHR 0x00 \<in> set (file_path c) \<Longrightarrow>
      open_failure env (file_path c) = Exc ValueError ''embedded null byte''"
    by (simp add: open_failure_def)
  from raised have "run_checks env c w = load_data env c w"
    by (simp add: run_checks_failed load_data_eq)
  moreover from raised have "load_data env c w =
      (Inl (open_failure env (file_path c)), c,
       emit (ReadCsv (file_path c) # load_events env c) w)"
    by (simp add: load_data_eq)
  ultimately show ?thesis
    using raised nul
    by (auto simp: result_of_def checker_of_def world_of_def new_events_emit load_events_def)
qed

theorem missing_file_propagates_open_failure_witness:
  "files demo_env ''nothing.csv'' = None
   \<and> exc_class (open_failure demo_env ''nothing.csv'') = FileNotFoundError
   \<and> result_of (run_checks demo_env (init demo_env ''nothing.csv'') demo_world) =
       Inl (Exc FileNotFoundError
             (''[Errno 2] No such file or directory: '' @ quoted ''nothing.csv''))
   \<and> new_events demo_world
         (world_of (run_checks demo_env (init demo_env ''nothing.csv'') demo_world)) =
       [ReadCsv ''nothing.csv'',
        Print (Text (''Error: [Errno 2] No such file or directory: '' @ quoted ''nothing.csv''))]
   \<and> files demo_env ''table.csv/part'' = None
   \<and> result_of (run_checks demo_env (init demo_env ''table.csv/part'') demo_world) =
       Inl (Exc NotADirectoryError (''[Errno 20] Not a directory: '' @ quoted ''table.csv/part''))
   \<and> new_events demo_world
         (world_of (run_checks demo_env (init demo_env ''table.csv/part'') demo_world)) =
       [ReadCsv ''table.csv/part'']
   \<and> files demo_env (''two'' @ [CHR 0x00] @ ''names'') = None
   \<and> result_of (run_checks demo_env (init demo_env (''two'' @ [CHR 0x00] @ ''names''))
         demo_world) = Inl (Exc ValueError ''embedded null byte'')"
proof -
  have absent: "files demo_env (file_path (init demo_env ''nothing.csv'')) = None"
    by (simp add: demo_env_def init_def)
  have through: "files demo_env (file_path (init demo_env ''table.csv/part'')) = None"
    by (simp add: demo_env_def init_def)
  have two: "files demo_env (file_path (init demo_env (''two'' @ [CHR 0x00] @ ''names''))) = None"
    by (simp add: demo_env_def init_def)
  have missing: "open_failure demo_env ''nothing.csv'' =
      Exc FileNotFoundError (''[Errno 2] No such file or directory: '' @ quoted ''nothing.csv'')"
    by (simp add: open_failure_def demo_env_def demo_open_error_def)
  have not_dir: "open_failure demo_env ''table.csv/part'' =
      Exc NotADirectoryError (''[Errno 20] Not a directory: '' @ quoted ''table.csv/part'')"
    by (simp add: open_failure_def demo_env_def demo_open_error_def)
  have refused: "open_failure demo_env (''two'' @ [CHR 0x00] @ ''names'') =
      Exc ValueError ''embedded null byte''"
    by (simp add: open_failure_def)
  from missing_file_propagates_open_failure [OF absent, of demo_world]
    missing_file_propagates_open_failure [OF through, of demo_world]
    missing_file_propagates_open_failure [OF two, of demo_world]
    absent through two missing not_dir refused
  show ?thesis
    by (simp add: init_def)
qed

text \<open>
  C1 as stated fails: no file exists at a name with a NUL in it, and the failure is a
  \<^verbatim>\<open>ValueError\<close>, not the NotFound one; \<open>load_data\<close> prints nothing for it.
\<close>

theorem nul_path_fails_without_NotFound:
  "files demo_env nul_path = None
   \<and> result_of (load_data demo_env (init demo_env nul_path) demo_world) =
       Inl (Exc ValueError ''embedded null byte'')
   \<and> exc_class (Exc ValueError ''embedded null byte'') = ValueError
   \<and> new_events demo_world (world_of (load_data demo_env (init demo_env nul_path) demo_world)) =
       [ReadCsv nul_path]"
  by (simp add: load_data_def read_csv_def open_failure_def demo_env_def nul_path_def init_def
      result_of_def world_of_def new_events_emit)

text \<open>
  C2, as the code has it. \<open>load_data\<close> calls the reader once. When the reader returns
  a frame, the frame becomes the checker's data and the confirmation is printed. When the
  reader raises, the same exception reaches the caller and the checker is unchanged; a
  diagnostic line is printed first for \<^verbatim>\<open>FileNotFoundError\<close>, \<^verbatim>\<open>EmptyDataError\<close>
  and \<^verbatim>\<open>ParserError\<close>, the three classes with an \<^verbatim>\<open>except\<close> clause, and
  nothing is printed for any other class. A file of no bytes raises \<^verbatim>\<open>EmptyDataError\<close>.
\<close>

theorem load_data_outcomes:
  "(\<forall>df. read_csv env (file_path c) = Inr df \<longrightarrow>
      load_data env c w =
        (Inr (), c\<lparr>data := Some df\<rparr>,
         emit [ReadCsv (file_path c), Print (Text ''Data loaded successfully.'')] w))
   \<and> (\<forall>e. read_csv env (file_path c) = Inl e \<longrightarrow>
      load_data env c w =
        (Inl e, c,
         emit (ReadCsv (file_path c) #
               (if exc_class e = FileNotFoundError then
                  [Print (Text (''Error: '' @ str e))]
                else if exc_class e = EmptyDataError then
                  [Print (Text ''Error: No data found at the specified path.'')]
                else if exc_class e = ParserError then
                  [Print (Text (''Error parsing data:  '' @ str e))]
                else [])) w))
   \<and> (files env (file_path c) = Some [] \<longrightarrow>
      result_of (load_data env c w) = Inl (Exc EmptyDataError ''No columns to parse from file''))"
  by (simp add: load_data_def emit_emit result_of_def read_csv_def emit_def)

theorem load_data_outcomes_witness:
  "read_csv demo_env ''table.csv'' = Inr demo_frame
   \<and> load_data demo_env (init demo_env ''table.csv'') demo_world =
       (Inr (), (init demo_env ''table.csv'')\<lparr>data := Some demo_frame\<rparr>,
        emit [ReadCsv ''table.csv'', Print (Text ''Data loaded successfully.'')] demo_world)
   \<and> read_csv demo_env ''latin1.csv'' = Inl not_utf8
   \<and> load_data demo_env (init demo_env ''latin1.csv'') demo_world =
       (Inl not_utf8, init demo_env ''latin1.csv'',
        emit [ReadCsv ''latin1.csv''] demo_world)
   \<and> files demo_env ''empty.csv'' = Some []
   \<and> load_data demo_env (init demo_env ''empty.csv'') demo_world =
       (Inl (Exc EmptyDataError ''No columns to parse from file''), init demo_env ''empty.csv'',
        emit [ReadCsv ''empty.csv'', Print (Text ''Error: No data found at the specified path.'')]
          demo_world)"
proof -
  have table: "read_csv demo_env ''table.csv'' = Inr demo_frame"
    by (simp add: read_csv_def demo_files)
  have latin1: "read_csv demo_env ''latin1.csv'' = Inl not_utf8"
    by (simp add: read_csv_def demo_files)
  have other: "exc_class not_utf8 = UnicodeDecodeError"
    by (simp add: not_utf8_def)
  have empty: "files demo_env ''empty.csv'' = Some []"
    by (simp add: demo_env_def)
  have empty_read: "read_csv demo_env ''empty.csv'' =
      Inl (Exc EmptyDataError ''No columns to parse from file'')"
    by (simp add: read_csv_def empty)
  from load_data_outcomes [of demo_env "init demo_env ''table.csv''" demo_world]
    load_data_outcomes [of demo_env "init demo_env ''latin1.csv''" demo_world]
    load_data_outcomes [of demo_env "init demo_env ''empty.csv''" demo_world]
    table latin1 other empty empty_read
  show ?thesis
    by (simp add: init_def)
qed

text \<open>
  C2 as stated fails: a file that is not valid UTF-8 makes the reader raise
  \<^verbatim>\<open>UnicodeDecodeError\<close>, which is none of the three failures, and \<open>load_data\<close>
  prints nothing before the exception leaves it.
\<close>

theorem load_data_silent_on_other_failures:
  "result_of (load_data demo_env (init demo_env ''latin1.csv'') demo_world) =
     Inl not_utf8
   \<and> exc_class not_utf8 = UnicodeDecodeError
   \<and> new_events demo_world
         (world_of (load_data demo_env (init demo_env ''latin1.csv'') demo_world)) =
       [ReadCsv ''latin1.csv'']"
  by (simp add: load_data_def read_csv_def demo_files
      not_utf8_def init_def result_of_def world_of_def new_events_emit)

section \<open>Missing values\<close>

text \<open>
  C3. On a loaded table, the series \<open>check_missing_values\<close> computes gives under each
  column the number of its cells that are the missing marker. When the total of these
  counts is zero the check prints the all-clear line; otherwise it prints the warning and
  then that series. It returns normally and leaves the checker as it was.
\<close>

theorem check_missing_values_reports_counts:
  assumes "data c = Some df"
  shows "sum_frame (isnull df) = map (\<lambda>col. (name col, count_list (cells col) NaN)) (columns df)
    \<and> check_missing_values c w =
      (Inr (), c,
       emit (if (\<Sum>col\<leftarrow>columns df. count_list (cells col) NaN) = 0
             then [Print (Text ''No missing values detected.'')]
             else [Print (Text ''Warning: Missing values detected.''),
                   Print (SeriesRepr
                     (map (\<lambda>col. (name col, count_list (cells col) NaN)) (columns df)))]) w)"
proof -
  define counts where "counts = map (\<lambda>col. (name col, count_list (cells col) NaN)) (columns df)"
  have frame: "sum_frame (isnull df) = counts"
    by (simp add: counts_def sum_frame_isnull)
  have total: "(\<Sum>col\<leftarrow>columns df. count_list (cells col) NaN) =
      sum_series (map (\<lambda>col. (name col, count_list (cells col) NaN)) (columns df))"
    by (simp add: sum_series_def o_def)
  have "sum_frame (isnull df) = counts
    \<and> check_missing_values c w =
      (Inr (), c,
       emit (if sum_series counts = 0
             then [Print (Text ''No missing values detected.'')]
             else [Print (Text ''Warning: Missing values detected.''),
                   Print (SeriesRepr counts)]) w)"
    using assms by (simp add: check_missing_values_def missing_values_body_def frame)
  then show ?thesis
    unfolding counts_def total .
qed

theorem check_missing_values_reports_counts_witness:
  "data ((init demo_env ''table.csv'')\<lparr>data := Some demo_frame\<rparr>) = Some demo_frame
   \<and> check_missing_values ((init demo_env ''table.csv'')\<lparr>data := Some demo_frame\<rparr>) demo_world =
       (Inr (), (init demo_env ''table.csv'')\<lparr>data := Some demo_frame\<rparr>,
        emit [Print (Text ''Warning: Missing values detected.''),
              Print (SeriesRepr [(''id'', 0), (''city'', 1)])] demo_world)"
proof -
  have loaded: "data ((init demo_env ''table.csv'')\<lparr>data := Some demo_frame\<rparr>) = Some demo_frame"
    by simp
  from check_missing_values_reports_counts [OF loaded, of demo_world]
  show ?thesis
    by (simp add: demo_frame_def)
qed

section \<open>Duplicates\<close>

text \<open>
  C4. Two rows of a loaded table are equal exactly when they agree in every column. The
  rows \<open>duplicated\<close> marks are those equal to a row before them; with \<open>d\<close> their
  number, \<open>check_duplicates\<close> prints the all-clear line when \<open>d\<close> is zero, and
  otherwise the warning followed by the line that reports \<open>d\<close>.
\<close>

theorem check_duplicates_counts_repeats:
  assumes "data c = Some df" and "wf_DataFrame df"
  shows "(\<forall>i j. row df i = row df j \<longleftrightarrow> (\<forall>col \<in> set (columns df). cells col ! i = cells col ! j))
    \<and> sum_bools (duplicated df) = card {i. i < nrows df \<and> (\<exists>j<i. row df j = row df i)}
    \<and> check_duplicates c w =
      (Inr (), c,
       emit (if card {i. i < nrows df \<and> (\<exists>j<i. row df j = row df i)} = 0
             then [Print (Text ''No duplicate records detected.'')]
             else [Print (Text ''Warning: Duplicate records detected.''),
                   Print (Text (''Number of duplicates: '' @
                     str_nat (card {i. i < nrows df \<and> (\<exists>j<i. row df j = row df i)})))]) w)"
proof -
  have count: "sum_bools (duplicated df) = card {i. i < nrows df \<and> (\<exists>j<i. row df j = row df i)}"
    by (simp add: sum_bools_duplicated row_eq_iff)
  have report: "check_duplicates c w =
      (Inr (), c,
       emit (if sum_bools (duplicated df) = 0
             then [Print (Text ''No duplicate records detected.'')]
             else [Print (Text ''Warning: Duplicate records detected.''),
                   Print (Text (''Number of duplicates: '' @ str_nat (sum_bools (duplicated df))))]) w)"
    using assms(1)
    by (simp add: check_duplicates_def duplicates_body_def any_true_duplicated)
  show ?thesis
    using report by (simp only: count row_eq_iff) simp
qed

theorem check_duplicates_counts_repeats_witness:
  "wf_DataFrame demo_frame
   \<and> card {i. i < nrows demo_frame \<and> (\<exists>j<i. row demo_frame j = row demo_frame i)} = 1
   \<and> check_duplicates ((init demo_env ''table.csv'')\<lparr>data := Some demo_frame\<rparr>) demo_world =
       (Inr (), (init demo_env ''table.csv'')\<lparr>data := Some demo_frame\<rparr>,
        emit [Print (Text ''Warning: Duplicate records detected.''),
              Print (Text ''Number of duplicates: 1'')] demo_world)"
proof -
  have loaded: "data ((init demo_env ''table.csv'')\<lparr>data := Some demo_frame\<rparr>) = Some demo_frame"
    by simp
  have wf: "wf_DataFrame demo_frame"
    by (simp add: wf_DataFrame_def demo_frame_def)
  have one: "sum_bools (duplicated demo_frame) = 1"
    by (simp add: sum_bools_def duplicated_def rows_def row_def demo_frame_def upt_rec)
  have digit: "str_nat 1 = ''1''"
    by (simp add: str_nat.simps)
  note at_demo = check_duplicates_counts_repeats [OF loaded wf, of demo_world]
  from at_demo one
  have repeats: "card {i. i < nrows demo_frame \<and> (\<exists>j<i. row demo_frame j = row demo_frame i)} = 1"
    by (simp only: conj_imp_eq_imp_imp)
  from at_demo have "check_duplicates ((init demo_env ''table.csv'')\<lparr>data := Some demo_frame\<rparr>)
      demo_world =
      (Inr (), (init demo_env ''table.csv'')\<lparr>data := Some demo_frame\<rparr>,
       emit [Print (Text ''Warning: Duplicate records detected.''),
             Print (Text (''Number of duplicates: '' @ str_nat 1))] demo_world)"
    unfolding repeats by simp
  with wf repeats digit show ?thesis
    by simp
qed

section \<open>The checks never raise\<close>

text \<open>
  C5. Each of the three checks returns normally whatever happens inside its
  \<^verbatim>\<open>try\<close>: when the body raises \<open>e\<close>, the check adds to the trace exactly one
  line, its error message with the text of \<open>e\<close>. Everything printed before the check
  is still there after it. So a run whose load succeeded returns normally too, also when
  the scaler or the forest refuses the table, as for a table with no numeric column.
\<close>

theorem checks_catch_every_exception:
  "result_of (check_missing_values c w) = Inr ()
   \<and> result_of (check_duplicates c w) = Inr ()
   \<and> result_of (check_outliers env c w) = Inr ()
   \<and> (\<forall>e. missing_values_body c = Inl e \<longrightarrow>
        new_events w (world_of (check_missing_values c w)) =
          [Print (Text (''Error checking missing values: '' @ str e))])
   \<and> (\<forall>e. duplicates_body c = Inl e \<longrightarrow>
        new_events w (world_of (check_duplicates c w)) =
          [Print (Text (''Error checking duplicates: '' @ str e))])
   \<and> (\<forall>e. fst (predict_outliers env c w) = Inl e \<longrightarrow>
        new_events w (world_of (check_outliers env c w)) =
          [Print (Text (''Error during outlier detection: '' @ str e))])
   \<and> trace (world_of (check_missing_values c w)) =
        trace w @ new_events w (world_of (check_missing_values c w))
   \<and> trace (world_of (check_duplicates c w)) =
        trace w @ new_events w (world_of (check_duplicates c w))
   \<and> trace (world_of (check_outliers env c w)) =
        trace w @ new_events w (world_of (check_outliers env c w))
   \<and> (\<forall>df. read_csv env (file_path c) = Inr df \<longrightarrow> result_of (run_checks env c w) = Inr ())"
  by (simp add: check_missing_values_eq check_duplicates_eq check_outliers_eq result_of_def
      world_of_def new_events_emit trace_emit run_checks_loaded
      missing_values_events_def duplicates_events_def outliers_events_def)

theorem checks_catch_every_exception_witness:
  "read_csv demo_env ''text.csv'' = Inr text_frame
   \<and> result_of (run_checks demo_env (init demo_env ''text.csv'') demo_world) = Inr ()
   \<and> fst (predict_outliers demo_env ((init demo_env ''text.csv'')\<lparr>data := Some text_frame\<rparr>)
        demo_world) = Inl (Exc ValueError ''at least one array or dtype is required'')
   \<and> new_events demo_world (world_of (check_outliers demo_env
        ((init demo_env ''text.csv'')\<lparr>data := Some text_frame\<rparr>) demo_world)) =
       [Print (Text ''Error during outlier detection: at least one array or dtype is required'')]
   \<and> missing_values_body (init demo_env ''text.csv'') = Inl (none_has_no ''isnull'')
   \<and> new_events demo_world (world_of (check_missing_values (init demo_env ''text.csv'')
        demo_world)) =
       [Print (Text (''Error checking missing values: '' @ str (none_has_no ''isnull'')))]
   \<and> duplicates_body (init demo_env ''text.csv'') = Inl (none_has_no ''duplicated'')
   \<and> new_events demo_world (world_of (check_duplicates (init demo_env ''text.csv'')
        demo_world)) =
       [Print (Text (''Error checking duplicates: '' @ str (none_has_no ''duplicated'')))]"
proof -
  have parsed: "read_csv demo_env ''text.csv'' = Inr text_frame"
    by (simp add: read_csv_def demo_files)
  have refused: "fst (predict_outliers demo_env
      ((init demo_env ''text.csv'')\<lparr>data := Some text_frame\<rparr>) demo_world) =
      Inl (Exc ValueError ''at least one array or dtype is required'')"
    by (simp add: predict_outliers_def select_dtypes_number_def text_frame_def demo_env_def
        demo_fit_transform_def)
  have no_isnull: "missing_values_body (init demo_env ''text.csv'') = Inl (none_has_no ''isnull'')"
    by (simp add: missing_values_body_def init_def)
  have no_duplicated:
    "duplicates_body (init demo_env ''text.csv'') = Inl (none_has_no ''duplicated'')"
    by (simp add: duplicates_body_def init_def)
  from checks_catch_every_exception [of "init demo_env ''text.csv''" demo_world demo_env]
    checks_catch_every_exception
      [of "(init demo_env ''text.csv'')\<lparr>data := Some text_frame\<rparr>" demo_world demo_env]
    parsed refused no_isnull no_duplicated
  show ?thesis
    by (simp add: init_def)
qed

text \<open>
  C10. On a checker that has not loaded anything, \<open>data\<close> is \<^verbatim>\<open>None\<close>: each
  check fails on its first attribute lookup, prints its error line with the text of that
  \<^verbatim>\<open>AttributeError\<close>, and returns normally with the checker unchanged.
\<close>

theorem unloaded_checker_checks_return:
  assumes "data c = None"
  shows "check_missing_values c w =
           (Inr (), c,
            emit [Print (Text (''Error checking missing values: '' @ quoted ''NoneType''
                    @ '' object has no attribute '' @ quoted ''isnull''))] w)
         \<and> check_duplicates c w =
           (Inr (), c,
            emit [Print (Text (''Error checking duplicates: '' @ quoted ''NoneType''
                    @ '' object has no attribute '' @ quoted ''duplicated''))] w)
         \<and> check_outliers env c w =
           (Inr (), c,
            emit [Print (Text (''Error during outlier detection: '' @ quoted ''NoneType''
                    @ '' object has no attribute '' @ quoted ''select_dtypes''))] w)"
  using assms
  by (simp add: check_missing_values_def missing_values_body_def check_duplicates_def
      duplicates_body_def check_outliers_def predict_outliers_def none_has_no_def)

theorem unloaded_checker_checks_return_witness:
  "data (init demo_env ''table.csv'') = None
   \<and> check_missing_values (init demo_env ''table.csv'') demo_world =
       (Inr (), init demo_env ''table.csv'',
        emit [Print (Text (''Error checking missing values: '' @ quoted ''NoneType''
                @ '' object has no attribute '' @ quoted ''isnull''))] demo_world)
   \<and> check_duplicates (init demo_env ''table.csv'') demo_world =
       (Inr (), init demo_env ''table.csv'',
        emit [Print (Text (''Error checking duplicates: '' @ quoted ''NoneType''
                @ '' object has no attribute '' @ quoted ''duplicated''))] demo_world)
   \<and> check_outliers demo_env (init demo_env ''table.csv'') demo_world =
       (Inr (), init demo_env ''table.csv'',
        emit [Print (Text (''Error during outlier detection: '' @ quoted ''NoneType''
                @ '' object has no attribute '' @ quoted ''select_dtypes''))] demo_world)"
proof -
  have fresh: "data (init demo_env ''table.csv'') = None"
    by (simp add: init_def)
  from unloaded_checker_checks_return [OF fresh, of demo_world demo_env] fresh
  show ?thesis
    by simp
qed

section \<open>The outlier check\<close>




section \<open>The outlier check is repeatable\<close>

text \<open>
  C7. Two runs of \<open>check_outliers\<close> on the same table give the same labels, hence the
  same flagged rows, and print the same line, whatever numpy's global generator holds in
  either run and whatever else the two traces hold. The forest is built with the seed 42
  and never draws from the global generator, which the check leaves as it found it. The
  two runs may start from different scaler states when the scaler fits anew (as
  \<^verbatim>\<open>fit_transform\<close> does); otherwise they start from the same one.
\<close>

theorem check_outliers_deterministic:
  assumes "data c = Some df" and "data c' = Some df"
    and "refits env \<or> scaler c = scaler c'"
  shows "fst (predict_outliers env c w) = fst (predict_outliers env c' w')
   \<and> new_events w (world_of (check_outliers env c w)) =
       new_events w' (world_of (check_outliers env c' w'))
   \<and> scaler (checker_of (check_outliers env c w)) = scaler (checker_of (check_outliers env c' w'))
   \<and> np_random (world_of (check_outliers env c w)) = np_random w"
proof -
  from assms(3) have "fit_transform env (scaler c) = fit_transform env (scaler c')"
    by (auto simp: refits_def)
  from predict_outliers_same_fit [OF assms(1,2) this, of w w']
  show ?thesis
    by (simp add: check_outliers_eq world_of_def checker_of_def new_events_emit np_random_emit
        outliers_events_def)
qed

theorem check_outliers_deterministic_witness:
  "refits demo_env
   \<and> fst (predict_outliers demo_env ((init demo_env ''table.csv'')\<lparr>data := Some demo_frame\<rparr>)
        demo_world) = Inr [1, 1, 1, 1, 1]
   \<and> fst (predict_outliers demo_env
        \<lparr>file_path = ''table.csv'', data = Some demo_frame, scaler = Some 5\<rparr>
        \<lparr>trace = [Print (Text ''No outliers detected.'')], np_random = 99\<rparr>) = Inr [1, 1, 1, 1, 1]
   \<and> new_events \<lparr>trace = [Print (Text ''No outliers detected.'')], np_random = 99\<rparr>
        (world_of (check_outliers demo_env
          \<lparr>file_path = ''table.csv'', data = Some demo_frame, scaler = Some 5\<rparr>
          \<lparr>trace = [Print (Text ''No outliers detected.'')], np_random = 99\<rparr>)) =
       new_events demo_world (world_of (check_outliers demo_env
          ((init demo_env ''table.csv'')\<lparr>data := Some demo_frame\<rparr>) demo_world))"
proof -
  have refit: "refits demo_env"
    by (simp add: refits_def demo_env_def demo_fit_transform_def)
  have first: "data ((init demo_env ''table.csv'')\<lparr>data := Some demo_frame\<rparr>) = Some demo_frame"
    by simp
  have second: "data \<lparr>file_path = ''table.csv'', data = Some demo_frame, scaler = Some (5::nat)\<rparr> =
      Some demo_frame"
    by simp
  have labels: "fst (predict_outliers demo_env
      ((init demo_env ''table.csv'')\<lparr>data := Some demo_frame\<rparr>) demo_world) = Inr [1, 1, 1, 1, 1]"
    by (simp add: predict_outliers_def IsolationForest_fit_def select_dtypes_number_def
        demo_frame_def demo_env_def demo_fit_transform_def demo_forest_fit_def demo_predict_def
        numeral_eq_Suc)
  from check_outliers_deterministic [OF first second disjI1 [OF refit], of demo_world
      "\<lparr>trace = [Print (Text ''No outliers detected.'')], np_random = 99\<rparr>"]
    refit labels
  show ?thesis
    by simp
qed

section \<open>One load, no mutation\<close>

text \<open>
  C8. No check changes the checker's \<open>data\<close>, and no check calls the reader. A run
  of \<open>run_checks\<close> calls the reader exactly once, as the first thing it does. When the
  reader returns the table \<open>df\<close>, the checker holds \<open>df\<close> after the load, when the
  duplicate check starts, when the outlier check starts and when the run ends.
\<close>

theorem table_loaded_once_and_never_changed:
  "data (checker_of (check_missing_values c w)) = data c
   \<and> data (checker_of (check_duplicates c w)) = data c
   \<and> data (checker_of (check_outliers env c w)) = data c
   \<and> filter is_ReadCsv (new_events w (world_of (check_missing_values c w))) = []
   \<and> filter is_ReadCsv (new_events w (world_of (check_duplicates c w))) = []
   \<and> filter is_ReadCsv (new_events w (world_of (check_outliers env c w))) = []
   \<and> filter is_ReadCsv (new_events w (world_of (run_checks env c w))) = [ReadCsv (file_path c)]
   \<and> take 1 (new_events w (world_of (run_checks env c w))) = [ReadCsv (file_path c)]
   \<and> (\<forall>df. read_csv env (file_path c) = Inr df \<longrightarrow>
        data (checker_of (load_data env c w)) = Some df
        \<and> data (checker_of (and_then (load_data env c w) check_missing_values)) = Some df
        \<and> data (checker_of (and_then (and_then (load_data env c w) check_missing_values)
                  check_duplicates)) = Some df
        \<and> data (checker_of (run_checks env c w)) = Some df)"
proof -
  have checks: "data (checker_of (check_missing_values c w)) = data c
      \<and> data (checker_of (check_duplicates c w)) = data c
      \<and> data (checker_of (check_outliers env c w)) = data c
      \<and> filter is_ReadCsv (new_events w (world_of (check_missing_values c w))) = []
      \<and> filter is_ReadCsv (new_events w (world_of (check_duplicates c w))) = []
      \<and> filter is_ReadCsv (new_events w (world_of (check_outliers env c w))) = []"
    by (simp add: check_missing_values_eq check_duplicates_eq check_outliers_eq checker_of_def
        world_of_def new_events_emit missing_values_events_prints duplicates_events_prints
        outliers_events_prints)
  have reads: "filter is_ReadCsv (new_events w (world_of (run_checks env c w))) =
        [ReadCsv (file_path c)]
      \<and> take 1 (new_events w (world_of (run_checks env c w))) = [ReadCsv (file_path c)]"
  proof (cases "read_csv env (file_path c)")
    case (Inl e)
    then show ?thesis
      by (simp add: run_checks_failed world_of_def new_events_emit load_events_prints)
  next
    case (Inr df)
    then show ?thesis
      by (simp add: run_checks_loaded world_of_def new_events_emit load_events_prints
          missing_values_events_prints duplicates_events_prints outliers_events_prints)
  qed
  have kept: "\<forall>df. read_csv env (file_path c) = Inr df \<longrightarrow>
        data (checker_of (load_data env c w)) = Some df
        \<and> data (checker_of (and_then (load_data env c w) check_missing_values)) = Some df
        \<and> data (checker_of (and_then (and_then (load_data env c w) check_missing_values)
                  check_duplicates)) = Some df
        \<and> data (checker_of (run_checks env c w)) = Some df"
    by (simp add: run_checks_loaded load_data_eq and_then_def check_missing_values_eq
        check_duplicates_eq checker_of_def)
  from checks reads kept show ?thesis
    by (simp only: simp_thms)
qed

theorem table_loaded_once_and_never_changed_witness:
  "read_csv demo_env ''table.csv'' = Inr demo_frame
   \<and> data (checker_of (and_then (and_then (load_data demo_env (init demo_env ''table.csv'')
        demo_world) check_missing_values) check_duplicates)) = Some demo_frame
   \<and> data (checker_of (run_checks demo_env (init demo_env ''table.csv'') demo_world)) =
       Some demo_frame
   \<and> filter is_ReadCsv (new_events demo_world
        (world_of (run_checks demo_env (init demo_env ''table.csv'') demo_world))) =
       [ReadCsv ''table.csv'']"
proof -
  have parsed: "read_csv demo_env ''table.csv'' = Inr demo_frame"
    by (simp add: read_csv_def demo_files)
  from table_loaded_once_and_never_changed [of "init demo_env ''table.csv''" demo_world demo_env]
    parsed
  show ?thesis
    by (simp add: init_def)
qed

end
